theory Spec2Isabelle
  imports Main "HOL-Library.Multiset"
begin

section \<open>Python values and the builtins the UI code calls\<close>

text \<open>
  The values that reach \<^verbatim>\<open>src/ui/app.py\<close>: \<^verbatim>\<open>None\<close>, booleans, integers, finite binary
  floats (mantissa and exponent, \<open>m * 2 ^ e\<close>), strings, lists and string-keyed
  dictionaries. A dictionary is an association list read with \<open>map_of\<close>.
  Strings are sequences of UTF-8 bytes.
\<close>

datatype pyval =
    PNone
  | PBool bool
  | PInt int
  | PFloat int int
  | PStr string
  | PList "pyval list"
  | PDict "(string \<times> pyval) list"

type_synonym pydict = "(string \<times> pyval) list"

text \<open>
  Two pieces of the Python runtime are not code of the repository and are taken as
  parameters: \<open>repr\<close> of a value that is not a string, and
  \<^verbatim>\<open>f"{float(x) * 100:.0f}"\<close>, which is \<open>None\<close> where \<^verbatim>\<open>float(x)\<close> (or the
  formatting) raises.
\<close>

record builtins =
  repr :: "pyval \<Rightarrow> string"
  float_pct :: "pyval \<Rightarrow> string option"

text \<open>\<^verbatim>\<open>str(x)\<close>: a string is itself, every other builtin value prints as its \<open>repr\<close>.\<close>

definition py_str :: "builtins \<Rightarrow> pyval \<Rightarrow> string" where
  "py_str B v = (case v of PStr s \<Rightarrow> s | _ \<Rightarrow> repr B v)"

text \<open>Truth value of \<^verbatim>\<open>if content:\<close>.\<close>

fun truthy :: "pyval \<Rightarrow> bool" where
  "truthy PNone = False"
| "truthy (PBool b) = b"
| "truthy (PInt i) = (i \<noteq> 0)"
| "truthy (PFloat m e) = (m \<noteq> 0)"
| "truthy (PStr s) = (s \<noteq> [])"
| "truthy (PList xs) = (xs \<noteq> [])"
| "truthy (PDict d) = (d \<noteq> [])"

text \<open>\<^verbatim>\<open>d.get(k, default)\<close>.\<close>

definition dict_get :: "pydict \<Rightarrow> string \<Rightarrow> pyval \<Rightarrow> pyval" where
  "dict_get d k dflt = (case map_of d k of Some v \<Rightarrow> v | None \<Rightarrow> dflt)"

section \<open>\<^verbatim>\<open>format_chunk_to_markdown\<close>\<close>

definition label_title :: string where
  "label_title = [CHR 0xF0, CHR 0x9F, CHR 0x93, CHR 0x8B] @ '' Title''"

definition label_action :: string where
  "label_action = [CHR 0xF0, CHR 0x9F, CHR 0x8E, CHR 0xAF] @ '' Action''"

definition label_result :: string where
  "label_result = [CHR 0xF0, CHR 0x9F, CHR 0x93, CHR 0x8A] @ '' Result''"

definition label_reasoning :: string where
  "label_reasoning = [CHR 0xF0, CHR 0x9F, CHR 0x92, CHR 0xAD] @ '' Reasoning''"

definition label_confidence :: string where
  "label_confidence = [CHR 0xF0, CHR 0x9F, CHR 0x93, CHR 0x88] @ '' Confidence''"

text \<open>
  The \<^verbatim>\<open>sections\<close> dictionary of the \<^verbatim>\<open>try\<close> body, in insertion order. Building it
  raises exactly when the confidence cannot be converted; that is the value \<open>None\<close>.
\<close>

definition sections :: "builtins \<Rightarrow> pydict \<Rightarrow> (string \<times> pyval) list option" where
  "sections B chunk_content =
     (case float_pct B (dict_get chunk_content ''confidence'' (PInt 0)) of
        None \<Rightarrow> None
      | Some p \<Rightarrow> Some
          [(label_title, dict_get chunk_content ''title'' (PStr [])),
           (label_action, dict_get chunk_content ''action'' (PStr [])),
           (label_result, dict_get chunk_content ''result'' (PStr [])),
           (label_reasoning, dict_get chunk_content ''reasoning'' (PStr [])),
           (label_confidence, PStr (p @ ''%''))])"

definition box_open :: string where
  \<open>box_open = ''<div style="border:1px solid #ddd; border-radius:5px; padding:10px; margin:10px 0; background-color:#f8f9fa;">''\<close>

definition section_html :: "builtins \<Rightarrow> string \<Rightarrow> pyval \<Rightarrow> string" where
  \<open>section_html B label content =
     ''\<newline><div style="margin-bottom:10px;">\<newline><strong>'' @ label @ '':</strong><br/>''
       @ py_str B content @ ''\<newline></div>''\<close>

text \<open>The loop \<^verbatim>\<open>for label, content in sections.items()\<close> with its accumulator.\<close>

fun add_sections :: "builtins \<Rightarrow> string \<Rightarrow> (string \<times> pyval) list \<Rightarrow> string" where
  "add_sections B markdown [] = markdown"
| "add_sections B markdown ((label, content) # rest) =
     add_sections B
       (if truthy content then markdown @ section_html B label content else markdown) rest"

definition format_chunk_to_markdown :: "builtins \<Rightarrow> pyval \<Rightarrow> string" where
  "format_chunk_to_markdown B chunk_content =
     (case chunk_content of
        PDict d \<Rightarrow>
          (case sections B d of
             None \<Rightarrow> py_str B chunk_content
           | Some secs \<Rightarrow> add_sections B box_open secs @ ''</div>'')
      | _ \<Rightarrow> py_str B chunk_content)"

section \<open>The streaming loop of \<^verbatim>\<open>main\<close>\<close>















section \<open>Document processing\<close>

text \<open>
  An uploaded file has a name and a buffer. A result is a dictionary with string
  values. The file system, \<^verbatim>\<open>pathlib\<close> and the PDF converter are outside the
  repository: they are parameters that take the state of the world and return an
  outcome with the world after the call. \<open>write_file\<close> is \<^verbatim>\<open>open(path, "wb")\<close> followed
  by \<^verbatim>\<open>f.write\<close>; \<open>convert\<close> is the body of the \<^verbatim>\<open>try\<close> in \<^verbatim>\<open>process_document\<close> up to
  \<^verbatim>\<open>export_to_markdown()\<close>. \<open>Inl\<close> carries \<^verbatim>\<open>str(e)\<close> of the exception raised.
\<close>

record uploaded_file =
  name :: string
  getbuffer :: string

type_synonym result = "(string \<times> string) list"

record 'w env =
  path_join :: "string \<Rightarrow> string \<Rightarrow> string"
  path_name :: "string \<Rightarrow> string"
  write_file :: "string \<Rightarrow> string \<Rightarrow> 'w \<Rightarrow> (string + unit) \<times> 'w"
  convert :: "string \<Rightarrow> 'w \<Rightarrow> (string + string) \<times> 'w"

definition save_uploaded_file ::
  "'w env \<Rightarrow> uploaded_file \<Rightarrow> string \<Rightarrow> 'w \<Rightarrow> (string + string) \<times> 'w" where
  "save_uploaded_file E uploaded temp_dir w =
     (let file_path = path_join E temp_dir (name uploaded)
      in case write_file E file_path (getbuffer uploaded) w of
           (Inl e, w') \<Rightarrow> (Inl e, w')
         | (Inr u, w') \<Rightarrow> (Inr file_path, w'))"

definition process_document :: "'w env \<Rightarrow> string \<Rightarrow> string \<Rightarrow> 'w \<Rightarrow> result \<times> 'w" where
  "process_document E file_path doc_type w =
     (case convert E file_path w of
        (Inr markdown, w') \<Rightarrow>
          ([(''status'', ''success''), (''content'', markdown),
            (''file_name'', path_name E file_path), (''doc_type'', doc_type)], w')
      | (Inl e, w') \<Rightarrow>
          ([(''status'', ''error''), (''error'', e),
            (''file_name'', path_name E file_path), (''doc_type'', doc_type)], w'))"

text \<open>
  The \<^verbatim>\<open>try\<close>/\<^verbatim>\<open>except\<close> statement that both loops of \<^verbatim>\<open>process_documents\<close> run on a
  file: save it, convert it, and on an exception build the error result.
\<close>

definition process_file ::
  "'w env \<Rightarrow> string \<Rightarrow> uploaded_file \<Rightarrow> string \<Rightarrow> 'w \<Rightarrow> result \<times> 'w" where
  "process_file E temp_dir file_obj doc_type w =
     (case save_uploaded_file E file_obj temp_dir w of
        (Inr file_path, w') \<Rightarrow> process_document E file_path doc_type w'
      | (Inl e, w') \<Rightarrow>
          ([(''status'', ''error''), (''error'', e),
            (''file_name'', name file_obj), (''doc_type'', doc_type)], w'))"

text \<open>
  The argument \<^verbatim>\<open>files\<close> is the four-element list
  \<^verbatim>\<open>[claim_file, discharge_file, bills_file, other_files]\<close> of the docstring, which is
  what \<^verbatim>\<open>main\<close> passes: three optional files and an optional list of files.
\<close>

record uploads =
  claim_file :: "uploaded_file option"
  discharge_file :: "uploaded_file option"
  bills_file :: "uploaded_file option"
  other_files :: "uploaded_file list option"

definition doc_types :: "string list" where
  "doc_types = [''Claim Form'', ''Discharge Note'', ''Medical Bills'']"

fun main_docs_loop ::
  "'w env \<Rightarrow> string \<Rightarrow> (uploaded_file option \<times> string) list \<Rightarrow> result list \<Rightarrow> 'w
     \<Rightarrow> result list \<times> 'w" where
  "main_docs_loop E temp_dir [] results w = (results, w)"
| "main_docs_loop E temp_dir ((None, doc_type) # rest) results w =
     main_docs_loop E temp_dir rest results w"
| "main_docs_loop E temp_dir ((Some file_obj, doc_type) # rest) results w =
     (case process_file E temp_dir file_obj doc_type w of
        (r, w') \<Rightarrow> main_docs_loop E temp_dir rest (results @ [r]) w')"

fun other_docs_loop ::
  "'w env \<Rightarrow> string \<Rightarrow> uploaded_file list \<Rightarrow> result list \<Rightarrow> 'w \<Rightarrow> result list \<times> 'w" where
  "other_docs_loop E temp_dir [] results w = (results, w)"
| "other_docs_loop E temp_dir (file_obj # rest) results w =
     (case process_file E temp_dir file_obj ''Supporting Document'' w of
        (r, w') \<Rightarrow> other_docs_loop E temp_dir rest (results @ [r]) w')"

definition process_documents :: "'w env \<Rightarrow> uploads \<Rightarrow> string \<Rightarrow> 'w \<Rightarrow> result list \<times> 'w" where
  "process_documents E files temp_dir w =
     (case main_docs_loop E temp_dir
             (zip [claim_file files, discharge_file files, bills_file files] doc_types) [] w of
        (results, w') \<Rightarrow>
          other_docs_loop E temp_dir
            (case other_files files of None \<Rightarrow> [] | Some fs \<Rightarrow> fs) results w')"

text \<open>
  The files that are not \<^verbatim>\<open>None\<close>, each with the document type its loop gives it, in
  the order the two loops visit them.
\<close>

fun present :: "(uploaded_file option \<times> string) list \<Rightarrow> (uploaded_file \<times> string) list" where
  "present [] = []"
| "present ((None, doc_type) # rest) = present rest"
| "present ((Some file_obj, doc_type) # rest) = (file_obj, doc_type) # present rest"

definition submitted :: "uploads \<Rightarrow> (uploaded_file \<times> string) list" where
  "submitted files =
     present (zip [claim_file files, discharge_file files, bills_file files] doc_types) @
     map (\<lambda>file_obj. (file_obj, ''Supporting Document''))
       (case other_files files of None \<Rightarrow> [] | Some fs \<Rightarrow> fs)"

definition has_key :: "result \<Rightarrow> string \<Rightarrow> bool" where
  "has_key r k = (map_of r k \<noteq> None)"

section \<open>\<^verbatim>\<open>prepare_content\<close>\<close>

datatype pyerr = KeyError string

definition err_bind :: "pyerr + 'a \<Rightarrow> ('a \<Rightarrow> pyerr + 'b) \<Rightarrow> pyerr + 'b" where
  "err_bind m f = (case m of Inl e \<Rightarrow> Inl e | Inr x \<Rightarrow> f x)"

text \<open>\<^verbatim>\<open>result[k]\<close>.\<close>

definition getitem :: "result \<Rightarrow> string \<Rightarrow> pyerr + string" where
  "getitem r k = (case map_of r k of None \<Rightarrow> Inl (KeyError k) | Some v \<Rightarrow> Inr v)"

definition doc_type_order :: "(string \<times> nat) list" where
  "doc_type_order =
     [(''Claim Form'', 1), (''Discharge Note'', 2), (''Medical Bills'', 3),
      (''Supporting Document'', 4)]"

text \<open>\<^verbatim>\<open>doc_type_order.get(t, 999)\<close>.\<close>

definition order_of :: "string \<Rightarrow> nat" where
  "order_of t = (case map_of doc_type_order t of Some n \<Rightarrow> n | None \<Rightarrow> 999)"

text \<open>
  \<^verbatim>\<open>sorted(results, key=...)\<close> computes the key of every element first, in order (a
  missing \<^verbatim>\<open>doc_type\<close> raises there), then sorts stably on the keys.
\<close>

fun keyed :: "result list \<Rightarrow> pyerr + (nat \<times> result) list" where
  "keyed [] = Inr []"
| "keyed (x # xs) =
     err_bind (getitem x ''doc_type'') (\<lambda>t.
     err_bind (keyed xs) (\<lambda>rest. Inr ((order_of t, x) # rest)))"

definition sorted_results :: "result list \<Rightarrow> pyerr + result list" where
  "sorted_results results =
     err_bind (keyed results) (\<lambda>kxs. Inr (map snd (sort_key fst kxs)))"

definition rule50 :: string where
  "rule50 = replicate 50 (CHR ''='')"

text \<open>The text one result adds to \<^verbatim>\<open>content\<close>.\<close>

definition block :: "result \<Rightarrow> pyerr + string" where
  "block r =
     err_bind (getitem r ''status'') (\<lambda>status.
       if status = ''success'' then
         err_bind (getitem r ''doc_type'') (\<lambda>doc_type.
         err_bind (getitem r ''file_name'') (\<lambda>file_name.
         err_bind (getitem r ''content'') (\<lambda>content.
           Inr (''\<newline>'' @ rule50 @ ''\<newline>\<newline>Document Type: '' @ doc_type
                @ ''\<newline>File Name: '' @ file_name
                @ ''\<newline>\<newline>Content:\<newline>'' @ content @ ''\<newline>\<newline>''))))
       else
         err_bind (getitem r ''doc_type'') (\<lambda>doc_type.
         err_bind (getitem r ''file_name'') (\<lambda>file_name.
         err_bind (getitem r ''error'') (\<lambda>error.
           Inr (''\<newline>'' @ rule50 @ ''\<newline>\<newline>Document Type: '' @ doc_type
                @ ''\<newline>File Name: '' @ file_name
                @ ''\<newline>Status: Error processing document\<newline>Error Details: '' @ error
                @ ''\<newline>\<newline>'')))))"

fun build_content :: "string \<Rightarrow> result list \<Rightarrow> pyerr + string" where
  "build_content content [] = Inr content"
| "build_content content (r # rest) =
     err_bind (block r) (\<lambda>b. build_content (content @ b) rest)"

definition prepare_content :: "result list \<Rightarrow> pyerr + string" where
  "prepare_content results = err_bind (sorted_results results) (build_content [])"

text \<open>
  A result as \<^verbatim>\<open>process_document\<close> and \<^verbatim>\<open>process_documents\<close> build it: it has the keys
  the loop of \<^verbatim>\<open>prepare_content\<close> reads.
\<close>

definition wf_result :: "result \<Rightarrow> bool" where
  "wf_result r =
     (has_key r ''doc_type'' \<and> has_key r ''status'' \<and> has_key r ''file_name'' \<and>
      (if map_of r ''status'' = Some ''success'' then has_key r ''content''
       else has_key r ''error''))"

text \<open>The sort key of a result, \<open>999\<close> also where the key is missing.\<close>

definition rank :: "result \<Rightarrow> nat" where
  "rank r = (case map_of r ''doc_type'' of Some t \<Rightarrow> order_of t | None \<Rightarrow> 999)"

section \<open>A concrete environment and upload\<close>

text \<open>
  An environment for evaluating the definitions: the world counts the files
  written, writing an empty buffer fails, and only \<^verbatim>\<open>temp_uploads/claim.pdf\<close> converts.
\<close>

definition example_env :: "nat env" where
  "example_env =
     \<lparr>path_join = (\<lambda>d n. d @ ''/'' @ n),
      path_name = (\<lambda>p. rev (takeWhile (\<lambda>c. c \<noteq> CHR ''/'') (rev p))),
      write_file = (\<lambda>p b w. (if b = [] then Inl ''empty buffer'' else Inr (), Suc w)),
      convert = (\<lambda>p w. (if p = ''temp_uploads/claim.pdf'' then Inr ''# Claim''
                            else Inl ''not a PDF'', w))\<rparr>"

definition example_files :: uploads where
  "example_files =
     \<lparr>claim_file = Some \<lparr>name = ''claim.pdf'', getbuffer = ''%PDF''\<rparr>,
      discharge_file = None,
      bills_file = Some \<lparr>name = ''bills.pdf'', getbuffer = []\<rparr>,
      other_files = Some [\<lparr>name = ''note.pdf'', getbuffer = ''text''\<rparr>]\<rparr>"

definition example_results :: "result list" where
  "example_results =
     [[(''status'', ''error''), (''error'', ''not a PDF''),
       (''file_name'', ''note.pdf''), (''doc_type'', ''Supporting Document'')],
      [(''status'', ''error''), (''error'', ''empty buffer''),
       (''file_name'', ''bills.pdf''), (''doc_type'', ''Medical Bills'')],
      [(''status'', ''success''), (''content'', ''# Claim''),
       (''file_name'', ''claim.pdf''), (''doc_type'', ''Claim Form'')]]"

section \<open>Properties of \<^verbatim>\<open>format_chunk_to_markdown\<close>\<close>

lemma add_sections_filter:
  "add_sections B acc secs =
     acc @ concat (map (\<lambda>(l, c). section_html B l c) (filter (\<lambda>(l, c). truthy c) secs))"
  by (induction B acc secs rule: add_sections.induct) simp_all

lemma truthy_iff:
  "truthy c \<longleftrightarrow>
     c \<noteq> PNone \<and> c \<noteq> PBool False \<and> c \<noteq> PInt 0 \<and> (\<forall>e. c \<noteq> PFloat 0 e) \<and>
     c \<noteq> PStr [] \<and> c \<noteq> PList [] \<and> c \<noteq> PDict []"
  by (cases c) auto

lemma format_chunk_to_markdown_non_dict:
  "\<forall>d. v \<noteq> PDict d \<Longrightarrow>
     format_chunk_to_markdown B v = (case v of PStr s \<Rightarrow> s | _ \<Rightarrow> repr B v)"
  by (cases v) (simp_all add: format_chunk_to_markdown_def py_str_def)

lemma format_chunk_to_markdown_fallback:
  "float_pct B (case map_of d ''confidence'' of Some x \<Rightarrow> x | None \<Rightarrow> PInt 0) = None \<Longrightarrow>
     format_chunk_to_markdown B (PDict d) = repr B (PDict d)"
  by (simp add: format_chunk_to_markdown_def sections_def dict_get_def py_str_def)

lemma format_chunk_to_markdown_box:
  \<open>float_pct B (case map_of d ''confidence'' of Some x \<Rightarrow> x | None \<Rightarrow> PInt 0) = Some p \<Longrightarrow>
     format_chunk_to_markdown B (PDict d) =
       ''<div style="border:1px solid #ddd; border-radius:5px; padding:10px; margin:10px 0; background-color:#f8f9fa;">'' @
       concat (map
         (\<lambda>(l, c). ''\<newline><div style="margin-bottom:10px;">\<newline><strong>'' @ l @ '':</strong><br/>'' @
            (case c of PStr s \<Rightarrow> s | _ \<Rightarrow> repr B c) @ ''\<newline></div>'')
         (filter
           (\<lambda>(l, c). c \<noteq> PNone \<and> c \<noteq> PBool False \<and> c \<noteq> PInt 0 \<and> (\<forall>e. c \<noteq> PFloat 0 e) \<and>
              c \<noteq> PStr [] \<and> c \<noteq> PList [] \<and> c \<noteq> PDict [])
           [([CHR 0xF0, CHR 0x9F, CHR 0x93, CHR 0x8B] @ '' Title'',
               case map_of d ''title'' of Some x \<Rightarrow> x | None \<Rightarrow> PStr []),
            ([CHR 0xF0, CHR 0x9F, CHR 0x8E, CHR 0xAF] @ '' Action'',
               case map_of d ''action'' of Some x \<Rightarrow> x | None \<Rightarrow> PStr []),
            ([CHR 0xF0, CHR 0x9F, CHR 0x93, CHR 0x8A] @ '' Result'',
               case map_of d ''result'' of Some x \<Rightarrow> x | None \<Rightarrow> PStr []),
            ([CHR 0xF0, CHR 0x9F, CHR 0x92, CHR 0xAD] @ '' Reasoning'',
               case map_of d ''reasoning'' of Some x \<Rightarrow> x | None \<Rightarrow> PStr []),
            ([CHR 0xF0, CHR 0x9F, CHR 0x93, CHR 0x88] @ '' Confidence'', PStr (p @ ''%''))])) @
       ''</div>''\<close>
proof -
  assume p: "float_pct B (case map_of d ''confidence'' of Some x \<Rightarrow> x | None \<Rightarrow> PInt 0) = Some p"
  have P: "(\<lambda>(l :: string, c). truthy c) =
      (\<lambda>(l, c). c \<noteq> PNone \<and> c \<noteq> PBool False \<and> c \<noteq> PInt 0 \<and> (\<forall>e. c \<noteq> PFloat 0 e) \<and>
              c \<noteq> PStr [] \<and> c \<noteq> PList [] \<and> c \<noteq> PDict [])"
    by (simp add: fun_eq_iff truthy_iff)
  have S: \<open>(\<lambda>(l, c). section_html B l c) =
      (\<lambda>(l, c). ''\<newline><div style="margin-bottom:10px;">\<newline><strong>'' @ l @ '':</strong><br/>'' @
            (case c of PStr s \<Rightarrow> s | _ \<Rightarrow> repr B c) @ ''\<newline></div>'')\<close>
    by (simp add: fun_eq_iff section_html_def py_str_def)
  have "sections B d = Some
          [(label_title, dict_get d ''title'' (PStr [])),
           (label_action, dict_get d ''action'' (PStr [])),
           (label_result, dict_get d ''result'' (PStr [])),
           (label_reasoning, dict_get d ''reasoning'' (PStr [])),
           (label_confidence, PStr (p @ ''%''))]"
    using p by (simp add: sections_def dict_get_def)
  then have "format_chunk_to_markdown B (PDict d) =
      box_open @
      concat (map (\<lambda>(l, c). section_html B l c)
        (filter (\<lambda>(l, c). truthy c)
          [(label_title, dict_get d ''title'' (PStr [])),
           (label_action, dict_get d ''action'' (PStr [])),
           (label_result, dict_get d ''result'' (PStr [])),
           (label_reasoning, dict_get d ''reasoning'' (PStr [])),
           (label_confidence, PStr (p @ ''%''))])) @ ''</div>''"
    by (simp add: format_chunk_to_markdown_def add_sections_filter)
  then show ?thesis
    unfolding P S box_open_def label_title_def label_action_def label_result_def
      label_reasoning_def label_confidence_def dict_get_def .
qed

text \<open>
  Claim C10. \<^verbatim>\<open>format_chunk_to_markdown\<close> returns a string on every input. On an input that
  is not a dictionary it returns \<^verbatim>\<open>str(input)\<close>: the string itself, or the \<open>repr\<close> of any
  other value. On a dictionary whose confidence cannot be converted to a float the
  exception is caught and it returns \<^verbatim>\<open>str(input)\<close>. On every other dictionary it
  returns the opening box, then, for each of the sections Title, Action, Result,
  Reasoning and Confidence whose content is not empty (not \<^verbatim>\<open>None\<close>, \<^verbatim>\<open>False\<close>, zero, or
  an empty string, list or dictionary), in that order, the block that holds the label
  and the content printed with \<^verbatim>\<open>str\<close>, then the closing tag. The confidence content is
  the percentage followed by a percent sign.
\<close>

theorem format_chunk_to_markdown_cases:
  \<open>((\<forall>d. v \<noteq> PDict d) \<longrightarrow>
      format_chunk_to_markdown B v = (case v of PStr s \<Rightarrow> s | _ \<Rightarrow> repr B v)) \<and>
   (float_pct B (case map_of d ''confidence'' of Some x \<Rightarrow> x | None \<Rightarrow> PInt 0) = None \<longrightarrow>
      format_chunk_to_markdown B (PDict d) = repr B (PDict d)) \<and>
   (float_pct B (case map_of d ''confidence'' of Some x \<Rightarrow> x | None \<Rightarrow> PInt 0) = Some p \<longrightarrow>
      format_chunk_to_markdown B (PDict d) =
       ''<div style="border:1px solid #ddd; border-radius:5px; padding:10px; margin:10px 0; background-color:#f8f9fa;">'' @
       concat (map
         (\<lambda>(l, c). ''\<newline><div style="margin-bottom:10px;">\<newline><strong>'' @ l @ '':</strong><br/>'' @
            (case c of PStr s \<Rightarrow> s | _ \<Rightarrow> repr B c) @ ''\<newline></div>'')
         (filter
           (\<lambda>(l, c). c \<noteq> PNone \<and> c \<noteq> PBool False \<and> c \<noteq> PInt 0 \<and> (\<forall>e. c \<noteq> PFloat 0 e) \<and>
              c \<noteq> PStr [] \<and> c \<noteq> PList [] \<and> c \<noteq> PDict [])
           [([CHR 0xF0, CHR 0x9F, CHR 0x93, CHR 0x8B] @ '' Title'',
               case map_of d ''title'' of Some x \<Rightarrow> x | None \<Rightarrow> PStr []),
            ([CHR 0xF0, CHR 0x9F, CHR 0x8E, CHR 0xAF] @ '' Action'',
               case map_of d ''action'' of Some x \<Rightarrow> x | None \<Rightarrow> PStr []),
            ([CHR 0xF0, CHR 0x9F, CHR 0x93, CHR 0x8A] @ '' Result'',
               case map_of d ''result'' of Some x \<Rightarrow> x | None \<Rightarrow> PStr []),
            ([CHR 0xF0, CHR 0x9F, CHR 0x92, CHR 0xAD] @ '' Reasoning'',
               case map_of d ''reasoning'' of Some x \<Rightarrow> x | None \<Rightarrow> PStr []),
            ([CHR 0xF0, CHR 0x9F, CHR 0x93, CHR 0x88] @ '' Confidence'', PStr (p @ ''%''))])) @
       ''</div>'')\<close>
  using format_chunk_to_markdown_non_dict [of v B] format_chunk_to_markdown_fallback [of B d]
    format_chunk_to_markdown_box [of B d p]
  by blast

text \<open>
  C10 at concrete chunks: an integer, a dictionary whose confidence is not a number,
  and a dictionary with a title and an empty result, whose output is written out.
\<close>

theorem format_chunk_to_markdown_cases_witness:
  \<open>(\<forall>d. PInt 7 \<noteq> PDict d) \<and>
   format_chunk_to_markdown \<lparr>repr = (\<lambda>v. ''7''), float_pct = (\<lambda>v. if v = PInt 0 then Some ''0'' else None)\<rparr> (PInt 7) = ''7'' \<and>
   float_pct \<lparr>repr = (\<lambda>v. ''7''), float_pct = (\<lambda>v. if v = PInt 0 then Some ''0'' else None)\<rparr> (case map_of [(''confidence'', PStr ''high'')] ''confidence'' of
                   Some x \<Rightarrow> x | None \<Rightarrow> PInt 0) = None \<and>
   format_chunk_to_markdown \<lparr>repr = (\<lambda>v. ''7''), float_pct = (\<lambda>v. if v = PInt 0 then Some ''0'' else None)\<rparr> (PDict [(''confidence'', PStr ''high'')]) = ''7'' \<and>
   float_pct \<lparr>repr = (\<lambda>v. ''7''), float_pct = (\<lambda>v. if v = PInt 0 then Some ''0'' else None)\<rparr> (case map_of [(''title'', PStr ''T''), (''result'', PStr [])] ''confidence'' of
                   Some x \<Rightarrow> x | None \<Rightarrow> PInt 0) = Some ''0'' \<and>
   format_chunk_to_markdown \<lparr>repr = (\<lambda>v. ''7''), float_pct = (\<lambda>v. if v = PInt 0 then Some ''0'' else None)\<rparr> (PDict [(''title'', PStr ''T''), (''result'', PStr [])]) =
     ''<div style="border:1px solid #ddd; border-radius:5px; padding:10px; margin:10px 0; background-color:#f8f9fa;">\<newline><div style="margin-bottom:10px;">\<newline><strong>'' @
     [CHR 0xF0, CHR 0x9F, CHR 0x93, CHR 0x8B] @
     '' Title:</strong><br/>T\<newline></div>\<newline><div style="margin-bottom:10px;">\<newline><strong>'' @
     [CHR 0xF0, CHR 0x9F, CHR 0x93, CHR 0x88] @
     '' Confidence:</strong><br/>0%\<newline></div></div>''\<close>
  using format_chunk_to_markdown_cases
    [of "PInt 7" "\<lparr>repr = (\<lambda>v. ''7''), float_pct = (\<lambda>v. if v = PInt 0 then Some ''0'' else None)\<rparr>" "[(''title'', PStr ''T''), (''result'', PStr [])]" "''0''"]
    format_chunk_to_markdown_cases
    [of "PInt 7" "\<lparr>repr = (\<lambda>v. ''7''), float_pct = (\<lambda>v. if v = PInt 0 then Some ''0'' else None)\<rparr>" "[(''confidence'', PStr ''high'')]"]
  by simp

section \<open>Properties of the streaming loop\<close>










section \<open>Properties of \<^verbatim>\<open>process_documents\<close>\<close>


lemma process_file_wf: "wf_result (fst (process_file E td f t w))"
  by (auto simp: process_file_def save_uploaded_file_def process_document_def Let_def has_key_def
      wf_result_def split: prod.splits sum.splits)

lemma main_docs_loop_results:
  "\<exists>rs w'. main_docs_loop E td xs acc w = (acc @ rs, w') \<and>
     list_all2 (\<lambda>r ft. \<exists>wi. r = fst (process_file E td (fst ft) (snd ft) wi)) rs (present xs)"
proof (induction xs arbitrary: acc w)
  case Nil
  then show ?case by simp
next
  case (Cons x xs)
  obtain fo t where x: "x = (fo, t)" by (cases x)
  show ?case
  proof (cases fo)
    case None
    with x Cons.IH [of acc w] show ?thesis by simp
  next
    case (Some f)
    obtain r w1 where pf: "process_file E td f t w = (r, w1)" by (cases "process_file E td f t w")
    from Cons.IH [of "acc @ [r]" w1] obtain rs w' where
      loop: "main_docs_loop E td xs (acc @ [r]) w1 = ((acc @ [r]) @ rs, w')" and
      all: "list_all2 (\<lambda>r ft. \<exists>wi. r = fst (process_file E td (fst ft) (snd ft) wi)) rs (present xs)"
      by blast
    have "r = fst (process_file E td f t w)" using pf by simp
    then have "\<exists>wi. r = fst (process_file E td f t wi)" by blast
    with all have "list_all2 (\<lambda>r ft. \<exists>wi. r = fst (process_file E td (fst ft) (snd ft) wi))
       (r # rs) (present (x # xs))"
      using x Some by simp
    moreover have "main_docs_loop E td (x # xs) acc w = (acc @ (r # rs), w')"
      using x Some pf loop by simp
    ultimately show ?thesis by blast
  qed
qed

lemma other_docs_loop_results:
  "\<exists>rs w'. other_docs_loop E td fs acc w = (acc @ rs, w') \<and>
     list_all2 (\<lambda>r ft. \<exists>wi. r = fst (process_file E td (fst ft) (snd ft) wi)) rs
       (map (\<lambda>file_obj. (file_obj, ''Supporting Document'')) fs)"
proof (induction fs arbitrary: acc w)
  case Nil
  then show ?case by simp
next
  case (Cons f fs)
  obtain r w1 where pf: "process_file E td f ''Supporting Document'' w = (r, w1)"
    by (cases "process_file E td f ''Supporting Document'' w")
  from Cons.IH [of "acc @ [r]" w1] obtain rs w' where
    loop: "other_docs_loop E td fs (acc @ [r]) w1 = ((acc @ [r]) @ rs, w')" and
    all: "list_all2 (\<lambda>r ft. \<exists>wi. r = fst (process_file E td (fst ft) (snd ft) wi)) rs
       (map (\<lambda>file_obj. (file_obj, ''Supporting Document'')) fs)"
    by blast
  have "r = fst (process_file E td f ''Supporting Document'' w)" using pf by simp
  then have "\<exists>wi. r = fst (process_file E td f ''Supporting Document'' wi)" by blast
  with all have "list_all2 (\<lambda>r ft. \<exists>wi. r = fst (process_file E td (fst ft) (snd ft) wi))
       (r # rs) (map (\<lambda>file_obj. (file_obj, ''Supporting Document'')) (f # fs))"
    by simp
  moreover have "other_docs_loop E td (f # fs) acc w = (acc @ (r # rs), w')"
    using pf loop by simp
  ultimately show ?case by blast
qed

lemma process_documents_results:
  "list_all2 (\<lambda>r ft. \<exists>wi. r = fst (process_file E td (fst ft) (snd ft) wi))
     (fst (process_documents E files td w)) (submitted files)"
proof -
  let ?P = "\<lambda>r ft. \<exists>wi. r = fst (process_file E td (fst ft) (snd ft) wi)"
  let ?xs = "zip [claim_file files, discharge_file files, bills_file files] doc_types"
  let ?fs = "case other_files files of None \<Rightarrow> [] | Some fs \<Rightarrow> fs"
  obtain rs1 w1 where m: "main_docs_loop E td ?xs [] w = ([] @ rs1, w1)"
    and a1: "list_all2 ?P rs1 (present ?xs)"
    using main_docs_loop_results [of E td ?xs "[]" w] by blast
  obtain rs2 w2 where o: "other_docs_loop E td ?fs rs1 w1 = (rs1 @ rs2, w2)"
    and a2: "list_all2 ?P rs2 (map (\<lambda>file_obj. (file_obj, ''Supporting Document'')) ?fs)"
    using other_docs_loop_results [of E td ?fs rs1 w1] by blast
  have "fst (process_documents E files td w) = rs1 @ rs2"
    using m o by (simp add: process_documents_def)
  moreover have "list_all2 ?P (rs1 @ rs2) (submitted files)"
    unfolding submitted_def using a1 a2 by (rule list_all2_appendI)
  ultimately show ?thesis by simp
qed



text \<open>The example upload evaluated: a success, a failed save and a failed conversion.\<close>

lemma process_documents_example:
  "process_documents example_env example_files ''temp_uploads'' 0 =
     ([[(''status'', ''success''), (''content'', ''# Claim''),
        (''file_name'', ''claim.pdf''), (''doc_type'', ''Claim Form'')],
       [(''status'', ''error''), (''error'', ''empty buffer''),
        (''file_name'', ''bills.pdf''), (''doc_type'', ''Medical Bills'')],
       [(''status'', ''error''), (''error'', ''not a PDF''),
        (''file_name'', ''note.pdf''), (''doc_type'', ''Supporting Document'')]], 3)"
  by (simp add: process_documents_def example_env_def example_files_def doc_types_def
      process_file_def save_uploaded_file_def process_document_def Let_def)

lemma process_documents_wf: "list_all wf_result (fst (process_documents E files td w))"
proof -
  have "list_all2 (\<lambda>r ft. \<exists>wi. r = fst (process_file E td (fst ft) (snd ft) wi))
     (fst (process_documents E files td w)) (submitted files)"
    by (rule process_documents_results)
  then show ?thesis
    by (auto simp: list_all_length list_all2_conv_all_nth process_file_wf)
qed

section \<open>Properties of \<^verbatim>\<open>prepare_content\<close>\<close>

lemma insort_key_decorated:
  "insort_key fst (f a, a) (map (\<lambda>x. (f x, x)) ys) = map (\<lambda>x. (f x, x)) (insort_key f a ys)"
  by (induction ys) simp_all

lemma sort_key_decorated:
  "sort_key fst (map (\<lambda>x. (f x, x)) xs) = map (\<lambda>x. (f x, x)) (sort_key f xs)"
  by (induction xs) (simp_all add: insort_key_decorated)

lemma keyed_wf:
  "list_all wf_result results \<Longrightarrow> keyed results = Inr (map (\<lambda>x. (rank x, x)) results)"
  by (induction results)
     (auto simp: wf_result_def has_key_def getitem_def err_bind_def rank_def)

lemma sorted_results_wf:
  assumes "list_all wf_result results"
  shows "sorted_results results = Inr (sort_key rank results)"
proof -
  have "map snd (map (\<lambda>x. (rank x, x)) (sort_key rank results)) = sort_key rank results"
    by (simp add: comp_def)
  then show ?thesis
    using keyed_wf [OF assms]
    by (simp add: sorted_results_def err_bind_def sort_key_decorated)
qed

lemma build_content_blocks:
  "map block rs = map Inr blocks \<Longrightarrow> build_content acc rs = Inr (acc @ concat blocks)"
proof (induction rs arbitrary: acc blocks)
  case Nil
  then show ?case by simp
next
  case (Cons r rs)
  then obtain b bs where "blocks = b # bs" "block r = Inr b" "map block rs = map Inr bs"
    by (cases blocks) auto
  with Cons.IH [of bs "acc @ b"] show ?case
    by (simp add: err_bind_def)
qed

text \<open>A result without the key \<^verbatim>\<open>doc_type\<close> makes the sort raise.\<close>

lemma prepare_content_missing_key: "prepare_content [[]] = Inl (KeyError ''doc_type'')"
  by (simp add: prepare_content_def sorted_results_def err_bind_def getitem_def)

lemma block_text:
  "wf_result r \<Longrightarrow> block r = Inr ((\<lambda>r. if map_of r ''status'' = Some ''success''
           then ''\<newline>'' @ replicate 50 (CHR ''='') @ ''\<newline>\<newline>Document Type: '' @
                the (map_of r ''doc_type'') @ ''\<newline>File Name: '' @ the (map_of r ''file_name'') @
                ''\<newline>\<newline>Content:\<newline>'' @ the (map_of r ''content'') @ ''\<newline>\<newline>''
           else ''\<newline>'' @ replicate 50 (CHR ''='') @ ''\<newline>\<newline>Document Type: '' @
                the (map_of r ''doc_type'') @ ''\<newline>File Name: '' @ the (map_of r ''file_name'') @
                ''\<newline>Status: Error processing document\<newline>Error Details: '' @
                the (map_of r ''error'') @ ''\<newline>\<newline>'') r)"
  by (auto simp: wf_result_def has_key_def block_def getitem_def err_bind_def rule50_def
      split: if_splits)

lemma blocks_text:
  "list_all wf_result rs \<Longrightarrow> map block rs = map Inr (map (\<lambda>r. if map_of r ''status'' = Some ''success''
           then ''\<newline>'' @ replicate 50 (CHR ''='') @ ''\<newline>\<newline>Document Type: '' @
                the (map_of r ''doc_type'') @ ''\<newline>File Name: '' @ the (map_of r ''file_name'') @
                ''\<newline>\<newline>Content:\<newline>'' @ the (map_of r ''content'') @ ''\<newline>\<newline>''
           else ''\<newline>'' @ replicate 50 (CHR ''='') @ ''\<newline>\<newline>Document Type: '' @
                the (map_of r ''doc_type'') @ ''\<newline>File Name: '' @ the (map_of r ''file_name'') @
                ''\<newline>Status: Error processing document\<newline>Error Details: '' @
                the (map_of r ''error'') @ ''\<newline>\<newline>'') rs)"
  by (induction rs) (simp_all add: block_text)

lemma rank_explicit:
  "rank r = (case map_of r ''doc_type'' of
              Some t \<Rightarrow>
                if t = ''Claim Form'' then 1
                else if t = ''Discharge Note'' then 2
                else if t = ''Medical Bills'' then 3
                else if t = ''Supporting Document'' then 4
                else 999
            | None \<Rightarrow> 999)"
  by (simp add: rank_def order_of_def doc_type_order_def split: option.splits)

text \<open>
  Claim C9. For every list of results that carry the keys \<^verbatim>\<open>process_documents\<close> gives
  them, \<^verbatim>\<open>prepare_content\<close> returns the concatenation of one block per result: a rule
  of fifty equals signs, the document type, the file name, and the content of a
  success or the error details of any other status. The blocks follow a stable sort of
  the results on the rank of the document type, which is 1 for Claim Form, 2 for
  Discharge Note, 3 for Medical Bills, 4 for Supporting Document and 999 for every
  other type: the ranks ascend along the output, the results of one rank keep their
  input order, and the sorted list is a permutation of the input, so each result,
  whatever its status, gives exactly one block.
\<close>

theorem prepare_content_stable_order:
  assumes wf: "list_all wf_result results"
  shows "prepare_content results = Inr (concat (map (\<lambda>r. if map_of r ''status'' = Some ''success''
           then ''\<newline>'' @ replicate 50 (CHR ''='') @ ''\<newline>\<newline>Document Type: '' @
                the (map_of r ''doc_type'') @ ''\<newline>File Name: '' @ the (map_of r ''file_name'') @
                ''\<newline>\<newline>Content:\<newline>'' @ the (map_of r ''content'') @ ''\<newline>\<newline>''
           else ''\<newline>'' @ replicate 50 (CHR ''='') @ ''\<newline>\<newline>Document Type: '' @
                the (map_of r ''doc_type'') @ ''\<newline>File Name: '' @ the (map_of r ''file_name'') @
                ''\<newline>Status: Error processing document\<newline>Error Details: '' @
                the (map_of r ''error'') @ ''\<newline>\<newline>'') (sort_key rank results))) \<and>
     length (map (\<lambda>r. if map_of r ''status'' = Some ''success''
           then ''\<newline>'' @ replicate 50 (CHR ''='') @ ''\<newline>\<newline>Document Type: '' @
                the (map_of r ''doc_type'') @ ''\<newline>File Name: '' @ the (map_of r ''file_name'') @
                ''\<newline>\<newline>Content:\<newline>'' @ the (map_of r ''content'') @ ''\<newline>\<newline>''
           else ''\<newline>'' @ replicate 50 (CHR ''='') @ ''\<newline>\<newline>Document Type: '' @
                the (map_of r ''doc_type'') @ ''\<newline>File Name: '' @ the (map_of r ''file_name'') @
                ''\<newline>Status: Error processing document\<newline>Error Details: '' @
                the (map_of r ''error'') @ ''\<newline>\<newline>'') (sort_key rank results)) = length results \<and>
     sorted (map rank (sort_key rank results)) \<and>
     (\<forall>k. filter (\<lambda>r. rank r = k) (sort_key rank results) = filter (\<lambda>r. rank r = k) results) \<and>
     mset (sort_key rank results) = mset results \<and>
     (\<forall>r. rank r = (case map_of r ''doc_type'' of
              Some t \<Rightarrow>
                if t = ''Claim Form'' then 1
                else if t = ''Discharge Note'' then 2
                else if t = ''Medical Bills'' then 3
                else if t = ''Supporting Document'' then 4
                else 999
            | None \<Rightarrow> 999))"
proof -
  have "list_all wf_result (sort_key rank results)"
    using wf by (simp add: list_all_iff)
  then have "map block (sort_key rank results) = map Inr (map (\<lambda>r. if map_of r ''status'' = Some ''success''
           then ''\<newline>'' @ replicate 50 (CHR ''='') @ ''\<newline>\<newline>Document Type: '' @
                the (map_of r ''doc_type'') @ ''\<newline>File Name: '' @ the (map_of r ''file_name'') @
                ''\<newline>\<newline>Content:\<newline>'' @ the (map_of r ''content'') @ ''\<newline>\<newline>''
           else ''\<newline>'' @ replicate 50 (CHR ''='') @ ''\<newline>\<newline>Document Type: '' @
                the (map_of r ''doc_type'') @ ''\<newline>File Name: '' @ the (map_of r ''file_name'') @
                ''\<newline>Status: Error processing document\<newline>Error Details: '' @
                the (map_of r ''error'') @ ''\<newline>\<newline>'') (sort_key rank results))"
    by (rule blocks_text)
  then have "build_content [] (sort_key rank results) =
      Inr ([] @ concat (map (\<lambda>r. if map_of r ''status'' = Some ''success''
           then ''\<newline>'' @ replicate 50 (CHR ''='') @ ''\<newline>\<newline>Document Type: '' @
                the (map_of r ''doc_type'') @ ''\<newline>File Name: '' @ the (map_of r ''file_name'') @
                ''\<newline>\<newline>Content:\<newline>'' @ the (map_of r ''content'') @ ''\<newline>\<newline>''
           else ''\<newline>'' @ replicate 50 (CHR ''='') @ ''\<newline>\<newline>Document Type: '' @
                the (map_of r ''doc_type'') @ ''\<newline>File Name: '' @ the (map_of r ''file_name'') @
                ''\<newline>Status: Error processing document\<newline>Error Details: '' @
                the (map_of r ''error'') @ ''\<newline>\<newline>'') (sort_key rank results)))"
    by (rule build_content_blocks)
  then have out: "prepare_content results = Inr (concat (map (\<lambda>r. if map_of r ''status'' = Some ''success''
           then ''\<newline>'' @ replicate 50 (CHR ''='') @ ''\<newline>\<newline>Document Type: '' @
                the (map_of r ''doc_type'') @ ''\<newline>File Name: '' @ the (map_of r ''file_name'') @
                ''\<newline>\<newline>Content:\<newline>'' @ the (map_of r ''content'') @ ''\<newline>\<newline>''
           else ''\<newline>'' @ replicate 50 (CHR ''='') @ ''\<newline>\<newline>Document Type: '' @
                the (map_of r ''doc_type'') @ ''\<newline>File Name: '' @ the (map_of r ''file_name'') @
                ''\<newline>Status: Error processing document\<newline>Error Details: '' @
                the (map_of r ''error'') @ ''\<newline>\<newline>'') (sort_key rank results)))"
    by (simp add: prepare_content_def sorted_results_wf [OF wf] err_bind_def)
  have stable: "\<forall>k. filter (\<lambda>r. rank r = k) (sort_key rank results) = filter (\<lambda>r. rank r = k) results"
    by (simp add: sort_key_stable)
  have rk: "\<forall>r. rank r = (case map_of r ''doc_type'' of
              Some t \<Rightarrow>
                if t = ''Claim Form'' then 1
                else if t = ''Discharge Note'' then 2
                else if t = ''Medical Bills'' then 3
                else if t = ''Supporting Document'' then 4
                else 999
            | None \<Rightarrow> 999)"
    using rank_explicit by blast
  have len: "length (map (\<lambda>r. if map_of r ''status'' = Some ''success''
           then ''\<newline>'' @ replicate 50 (CHR ''='') @ ''\<newline>\<newline>Document Type: '' @
                the (map_of r ''doc_type'') @ ''\<newline>File Name: '' @ the (map_of r ''file_name'') @
                ''\<newline>\<newline>Content:\<newline>'' @ the (map_of r ''content'') @ ''\<newline>\<newline>''
           else ''\<newline>'' @ replicate 50 (CHR ''='') @ ''\<newline>\<newline>Document Type: '' @
                the (map_of r ''doc_type'') @ ''\<newline>File Name: '' @ the (map_of r ''file_name'') @
                ''\<newline>Status: Error processing document\<newline>Error Details: '' @
                the (map_of r ''error'') @ ''\<newline>\<newline>'') (sort_key rank results)) = length results"
    by simp
  have srt: "sorted (map rank (sort_key rank results))" by simp
  have ms: "mset (sort_key rank results) = mset results" by simp
  from out len srt stable ms rk show ?thesis by (intro conjI)
qed

text \<open>
  C9 on the example results, which arrive in the reverse of the output order; the
  output is written out.
\<close>

theorem prepare_content_stable_order_witness:
  "list_all wf_result example_results \<and>
   prepare_content example_results = Inr
     ''\<newline>==================================================\<newline>\<newline>Document Type: Claim Form\<newline>File Name: claim.pdf\<newline>\<newline>Content:\<newline># Claim\<newline>\<newline>\<newline>==================================================\<newline>\<newline>Document Type: Medical Bills\<newline>File Name: bills.pdf\<newline>Status: Error processing document\<newline>Error Details: empty buffer\<newline>\<newline>\<newline>==================================================\<newline>\<newline>Document Type: Supporting Document\<newline>File Name: note.pdf\<newline>Status: Error processing document\<newline>Error Details: not a PDF\<newline>\<newline>''"
proof -
  have wf: "list_all wf_result example_results"
    by (simp add: example_results_def wf_result_def has_key_def)
  have srt: "sort_key rank example_results = rev example_results"
    by (simp add: example_results_def rank_def order_of_def doc_type_order_def)
  have r50: "replicate 50 (CHR ''='') = ''==================================================''"
    by (simp add: numeral_eq_Suc)
  from prepare_content_stable_order [OF wf]
  have "prepare_content example_results =
      Inr (concat (map (\<lambda>r. if map_of r ''status'' = Some ''success''
           then ''\<newline>'' @ replicate 50 (CHR ''='') @ ''\<newline>\<newline>Document Type: '' @
                the (map_of r ''doc_type'') @ ''\<newline>File Name: '' @ the (map_of r ''file_name'') @
                ''\<newline>\<newline>Content:\<newline>'' @ the (map_of r ''content'') @ ''\<newline>\<newline>''
           else ''\<newline>'' @ replicate 50 (CHR ''='') @ ''\<newline>\<newline>Document Type: '' @
                the (map_of r ''doc_type'') @ ''\<newline>File Name: '' @ the (map_of r ''file_name'') @
                ''\<newline>Status: Error processing document\<newline>Error Details: '' @
                the (map_of r ''error'') @ ''\<newline>\<newline>'') (sort_key rank example_results)))"
    by (rule conjunct1)
  then have "prepare_content example_results = Inr
     ''\<newline>==================================================\<newline>\<newline>Document Type: Claim Form\<newline>File Name: claim.pdf\<newline>\<newline>Content:\<newline># Claim\<newline>\<newline>\<newline>==================================================\<newline>\<newline>Document Type: Medical Bills\<newline>File Name: bills.pdf\<newline>Status: Error processing document\<newline>Error Details: empty buffer\<newline>\<newline>\<newline>==================================================\<newline>\<newline>Document Type: Supporting Document\<newline>File Name: note.pdf\<newline>Status: Error processing document\<newline>Error Details: not a PDF\<newline>\<newline>''"
    unfolding srt r50 by (simp add: example_results_def)
  with wf show ?thesis by (rule conjI)
qed

end
